theory Spec2Isabelle
  imports Main
begin

section \<open>Severity levels and log records\<close>

text \<open>
  The package \<open>loggy\<close> (file \<open>loggy.go\<close>) is a leveled logger with three sinks: the
  console, an append-only file and a Keybase chat channel.

  \<open>type LogLevel int\<close>: the level is a Go \<open>int\<close>. The code only compares levels and
  uses them as an array index, so the level is modelled as an \<open>int\<close>; no arithmetic is
  done on it and no wrap-around can occur.
\<close>

type_synonym LogLevel = int

definition Info :: LogLevel where "Info = 4"
definition Debug :: LogLevel where "Debug = 5"
definition Warnings :: LogLevel where "Warnings = 3"
definition Errors :: LogLevel where "Errors = 2"
definition Critical :: LogLevel where "Critical = 1"
definition StdoutOnly :: LogLevel where "StdoutOnly = 0"

text \<open>\<open>type Log struct { Level LogLevel; Msg string }\<close>\<close>

record Log =
  Level :: LogLevel
  Msg :: string

text \<open>
  \<open>func (msg Log) String() string\<close> indexes the fixed array \<open>levels\<close> of six names with
  \<open>msg.Level\<close>. Go checks the index at run time: an index below 0 or above 5 panics
  (index out of range), which is the result \<open>None\<close> here. \<open>fmt.Sprintf("%s: %s", a, b)\<close>
  is \<open>a @ '': '' @ b\<close>.
\<close>

definition levels :: "string list" where
  "levels = [''StdoutOnly'', ''Critical'', ''Error'', ''Warning'', ''Info'', ''Debug'']"

definition Log_String :: "Log \<Rightarrow> string option" where
  "Log_String msg =
     (if 0 \<le> Level msg \<and> Level msg < int (length levels)
      then Some (levels ! nat (Level msg) @ '': '' @ Msg msg)
      else None)"

section \<open>Options, the logger and the world it writes to\<close>

text \<open>
  \<open>type LogOpts struct\<close>. The fields \<open>toFile\<close>, \<open>toKeybase\<close> and \<open>toStdout\<close> are
  unexported: a caller outside the package cannot set them, so every options value such a
  caller passes to \<open>NewLogger\<close> has them at their zero value \<open>false\<close>. The threshold is
  the field \<open>Level\<close> of the source; it is called \<open>opts_Level\<close> here, since a record
  field name is a constant and \<open>Level\<close> is the field of \<open>Log\<close>.
\<close>

record LogOpts =
  toFile :: bool
  toKeybase :: bool
  toStdout :: bool
  OutFile :: string
  KBTeam :: string
  KBChann :: string
  opts_Level :: LogLevel
  ProgName :: string
  UseStdout :: bool

text \<open>
  The Keybase client library is not part of the package. Of \<open>keybase.Keybase\<close> the code
  reads the field \<open>LoggedIn\<close> only; of \<open>keybase.Channel\<close> it sets \<open>Name\<close>,
  \<open>TopicName\<close> and \<open>MembersType\<close> (to \<open>keybase.TEAM\<close> or \<open>keybase.USER\<close>).
  \<open>NoMembersType\<close> is the zero value of the field.
\<close>

datatype MembersType = NoMembersType | TEAM | USER

record Channel =
  Name :: string
  TopicName :: string
  MembersType :: MembersType

record Keybase =
  LoggedIn :: bool

text \<open>\<open>type Logger struct\<close>: \<open>k\<close> is a pointer, \<open>None\<close> is \<open>nil\<close>.\<close>

record Logger =
  opts :: LogOpts
  k :: "Keybase option"
  team :: Channel

definition zero_LogOpts :: LogOpts where
  "zero_LogOpts = \<lparr>toFile = False, toKeybase = False, toStdout = False, OutFile = [],
     KBTeam = [], KBChann = [], opts_Level = 0, ProgName = [], UseStdout = False\<rparr>"

definition zero_Channel :: Channel where
  "zero_Channel = \<lparr>Name = [], TopicName = [], MembersType = NoMembersType\<rparr>"

definition zero_Logger :: Logger where
  "zero_Logger = \<lparr>opts = zero_LogOpts, k = None, team = zero_Channel\<rparr>"

text \<open>
  Everything outside the process that the code reads or writes:
  \<^item> \<open>clock\<close>: what \<open>time.Now().Format("02Jan06 15:04:05.9999")\<close> yields;
  \<^item> \<open>stdout\<close>: the lines printed with \<open>fmt.Println\<close>, oldest first;
  \<^item> \<open>files\<close>: the contents of the files by path (\<open>None\<close>: no such file);
  \<^item> \<open>open_fails\<close>, \<open>write_fails\<close>: the paths on which \<open>os.OpenFile\<close>, and a write
    to the opened file, return an error;
  \<^item> \<open>chat\<close>: the messages handed to \<open>chat.Send\<close>, each with its channel, oldest first
    (whether the transport delivers them is not modelled: the code ignores the result);
  \<^item> \<open>session\<close>: the client that \<open>keybase.NewKeybase()\<close> returns.
\<close>

record World =
  clock :: string
  stdout :: "string list"
  files :: "string \<rightharpoonup> string"
  open_fails :: "string \<Rightarrow> bool"
  write_fails :: "string \<Rightarrow> bool"
  chat :: "(Channel \<times> string) list"
  session :: Keybase

text \<open>
  How a call ends: it returns a value, it panics (an unrecovered panic ends the process),
  or it calls \<open>os.Exit\<close> with a code. Each case carries the world it leaves.
\<close>

datatype 'a outcome = Returned 'a World | Panicked World | Exited int World

definition timeStamp :: "World \<Rightarrow> string" where
  "timeStamp w = clock w"

definition Println :: "string \<Rightarrow> World \<Rightarrow> World" where
  "Println s w = w\<lparr>stdout := stdout w @ [s]\<rparr>"

text \<open>
  \<open>*os.File\<close>: \<open>nil\<close> (\<open>None\<close>) or a handle on a path. \<open>os.OpenFile\<close> with
  \<open>O_APPEND|O_CREATE|O_WRONLY\<close> returns \<open>nil\<close> and an error, or a handle, having
  created the file empty when it did not exist. The methods of \<open>*os.File\<close> on a \<open>nil\<close>
  receiver return the error \<open>os.ErrInvalid\<close> and do nothing else. \<open>WriteString\<close>
  returns whether it succeeded (\<open>err == nil\<close>); a failed write is taken to have written
  nothing. \<open>Close\<close> leaves the world as it is.
\<close>

type_synonym File = "string option"

definition contents :: "World \<Rightarrow> string \<Rightarrow> string" where
  "contents w name = (case files w name of None \<Rightarrow> [] | Some c \<Rightarrow> c)"

definition OpenFile :: "string \<Rightarrow> World \<Rightarrow> File \<times> World" where
  "OpenFile name w =
     (if open_fails w name then (None, w)
      else (Some name, w\<lparr>files := (files w)(name \<mapsto> contents w name)\<rparr>))"

definition WriteString :: "File \<Rightarrow> string \<Rightarrow> World \<Rightarrow> bool \<times> World" where
  "WriteString f s w =
     (case f of
        None \<Rightarrow> (False, w)
      | Some name \<Rightarrow>
          if write_fails w name then (False, w)
          else (True, w\<lparr>files := (files w)(name \<mapsto> contents w name @ s)\<rparr>))"

definition Send :: "Channel \<Rightarrow> string \<Rightarrow> World \<Rightarrow> World" where
  "Send c s w = w\<lparr>chat := chat w @ [(c, s)]\<rparr>"

definition NewKeybase :: "World \<Rightarrow> Keybase" where
  "NewKeybase w = session w"

section \<open>The sinks\<close>

text \<open>
  \<open>func (l Logger) toFile(msg Log)\<close>. The arguments of \<open>Sprintf\<close> are evaluated first,
  so a level out of range panics before the file is opened. After a failed open the code
  prints its diagnostic and goes on: it defers \<open>f.Close()\<close> and calls \<open>f.WriteString\<close>
  on the \<open>nil\<close> handle.
\<close>

definition Logger_toFile :: "Logger \<Rightarrow> Log \<Rightarrow> World \<Rightarrow> unit outcome" where
  "Logger_toFile l msg w =
     (case Log_String msg of
        None \<Rightarrow> Panicked w
      | Some s \<Rightarrow>
          (let output = ''['' @ timeStamp w @ ''] '' @ s;
               (f, w1) = OpenFile (OutFile (opts l)) w;
               w2 = (if f = None then Println ''Unable to open logging file'' w1 else w1);
               (ok, w3) = WriteString f (output @ [CHR 0x0A]) w2;
               w4 = (if \<not> ok then Println ''Error writing output to logging file'' w3 else w3)
           in Returned () w4))"

text \<open>
  \<open>func (l Logger) toKeybase(msg Log)\<close>. \<open>l.k\<close> is \<open>nil\<close> in a logger built without a
  team; sending through it is a nil dereference.
\<close>

definition Logger_toKeybase :: "Logger \<Rightarrow> Log \<Rightarrow> World \<Rightarrow> unit outcome" where
  "Logger_toKeybase l msg w =
     (let tag = (if Level msg \<le> 2 then ''@everyone '' else []) in
      case Log_String msg of
        None \<Rightarrow> Panicked w
      | Some s \<Rightarrow>
          (let output = ''['' @ ProgName (opts l) @ ''] '' @ tag @ s in
           case k l of
             None \<Rightarrow> Panicked w
           | Some kb \<Rightarrow> Returned () (Send (team l) output w)))"

text \<open>\<open>func (l Logger) toStdout(msg Log)\<close>\<close>

definition Logger_toStdout :: "Logger \<Rightarrow> Log \<Rightarrow> World \<Rightarrow> unit outcome" where
  "Logger_toStdout l msg w =
     (case Log_String msg of
        None \<Rightarrow> Panicked w
      | Some s \<Rightarrow> Returned () (Println (''['' @ timeStamp w @ ''] '' @ s) w))"

section \<open>Dispatch\<close>

text \<open>
  \<open>handleLog\<close> starts each sink with a \<open>go\<close> statement and returns at once. Its result
  is the list of the goroutines it has started, in the order of the \<open>go\<close> statements.
\<close>

datatype sink = Go_toKeybase Logger Log | Go_toFile Logger Log | Go_toStdout Logger Log

definition handleLog :: "Logger \<Rightarrow> Log \<Rightarrow> sink list" where
  "handleLog l logMsg =
     (if Level logMsg > opts_Level (opts l) \<and> Level logMsg \<noteq> 0 then []
      else if Level logMsg = 0 then [Go_toStdout l logMsg]
      else (if toKeybase (opts l) then [Go_toKeybase l logMsg] else [])
         @ (if toFile (opts l) then [Go_toFile l logMsg] else [])
         @ (if toStdout (opts l) then [Go_toStdout l logMsg] else []))"

text \<open>
  Running the started goroutines: each to its end, one after the other in the order
  started. A panic in one of them ends the process, so the rest do not run.
\<close>

fun run_sink :: "sink \<Rightarrow> World \<Rightarrow> unit outcome" where
  "run_sink (Go_toKeybase l msg) w = Logger_toKeybase l msg w"
| "run_sink (Go_toFile l msg) w = Logger_toFile l msg w"
| "run_sink (Go_toStdout l msg) w = Logger_toStdout l msg w"

fun run_sinks :: "sink list \<Rightarrow> World \<Rightarrow> unit outcome" where
  "run_sinks [] w = Returned () w"
| "run_sinks (g # gs) w =
     (case run_sink g w of
        Returned u w' \<Rightarrow> run_sinks gs w'
      | Panicked w' \<Rightarrow> Panicked w'
      | Exited c w' \<Rightarrow> Exited c w')"

definition dispatch :: "Logger \<Rightarrow> Log \<Rightarrow> World \<Rightarrow> unit outcome" where
  "dispatch l logMsg w = run_sinks (handleLog l logMsg) w"

section \<open>The entry points\<close>

text \<open>
  An entry point starts goroutines and then returns to its caller or ends the process
  with \<open>os.Exit\<close>. All but \<open>LogPanic\<close> run \<open>go handleLog(l, logMsg)\<close>; \<open>LogPanic\<close>
  calls \<open>handleLog\<close> itself, so the goroutines it has started when it exits are the
  sinks'. In the variant of the file whose entry points take a format and arguments,
  \<open>msg\<close> stands for the result of \<open>fmt.Sprintf(msg, a...)\<close>.
\<close>

datatype goroutine = Go_handleLog Logger Log | Go_sink sink

datatype ending = Return | Exit int

type_synonym call = "goroutine list \<times> ending"

definition LogInfo :: "Logger \<Rightarrow> string \<Rightarrow> call" where
  "LogInfo l msg = ([Go_handleLog l \<lparr>Level = Info, Msg = msg\<rparr>], Return)"

definition LogDebug :: "Logger \<Rightarrow> string \<Rightarrow> call" where
  "LogDebug l msg = ([Go_handleLog l \<lparr>Level = Debug, Msg = msg\<rparr>], Return)"

definition LogWarn :: "Logger \<Rightarrow> string \<Rightarrow> call" where
  "LogWarn l msg = ([Go_handleLog l \<lparr>Level = Warnings, Msg = msg\<rparr>], Return)"

definition LogError :: "Logger \<Rightarrow> string \<Rightarrow> call" where
  "LogError l msg = ([Go_handleLog l \<lparr>Level = Errors, Msg = msg\<rparr>], Return)"

definition LogCritical :: "Logger \<Rightarrow> string \<Rightarrow> call" where
  "LogCritical l msg = ([Go_handleLog l \<lparr>Level = Critical, Msg = msg\<rparr>], Return)"

definition LogPanic :: "Logger \<Rightarrow> string \<Rightarrow> call" where
  "LogPanic l msg = (map Go_sink (handleLog l \<lparr>Level = Critical, Msg = msg\<rparr>), Exit (- 1))"

text \<open>\<open>LogErrorType(e error)\<close>: the argument here is \<open>e.Error()\<close>.\<close>

definition LogErrorType :: "Logger \<Rightarrow> string \<Rightarrow> call" where
  "LogErrorType l e = ([Go_handleLog l \<lparr>Level = Critical, Msg = e\<rparr>], Return)"

definition Logger_Log :: "Logger \<Rightarrow> LogLevel \<Rightarrow> string \<Rightarrow> call" where
  "Logger_Log l level msg = ([Go_handleLog l \<lparr>Level = level, Msg = msg\<rparr>], Return)"

definition LogMsg :: "Logger \<Rightarrow> Log \<Rightarrow> call" where
  "LogMsg l msg = ([Go_handleLog l msg], Return)"

text \<open>
  \<open>PanicSafe\<close> (in the newest variant of the file): \<open>r\<close> is what \<open>recover()\<close> returns,
  rendered with \<open>%+v\<close>; \<open>None\<close> when there is no panic to recover from.
\<close>

definition PanicSafe :: "Logger \<Rightarrow> string option \<Rightarrow> call" where
  "PanicSafe l r =
     (case r of
        None \<Rightarrow> ([], Return)
      | Some v \<Rightarrow> LogCritical l (''Panic detected: '' @ v))"

fun run_goroutine :: "goroutine \<Rightarrow> World \<Rightarrow> unit outcome" where
  "run_goroutine (Go_handleLog l msg) w = dispatch l msg w"
| "run_goroutine (Go_sink g) w = run_sink g w"

text \<open>
  When a call ends. Go does not say when a goroutine that has been started runs: the
  starter may go on before it has run at all, and \<open>os.Exit\<close> ends the process at once,
  without waiting for any goroutine. \<open>at_end n c w\<close> is the outcome of the call \<open>c\<close>
  when the first \<open>n\<close> of the goroutines it has started have run to their end by the
  time it ends; \<open>n = 0\<close> is the schedule in which the starter goes on first. A goroutine
  that panics ends the process before the call ends.
\<close>

fun run_goroutines :: "goroutine list \<Rightarrow> World \<Rightarrow> unit outcome" where
  "run_goroutines [] w = Returned () w"
| "run_goroutines (g # gs) w =
     (case run_goroutine g w of
        Returned u w' \<Rightarrow> run_goroutines gs w'
      | Panicked w' \<Rightarrow> Panicked w'
      | Exited c w' \<Rightarrow> Exited c w')"

definition at_end :: "nat \<Rightarrow> call \<Rightarrow> World \<Rightarrow> unit outcome" where
  "at_end n c w =
     (case run_goroutines (take n (fst c)) w of
        Returned u w' \<Rightarrow> (case snd c of Return \<Rightarrow> Returned () w' | Exit code \<Rightarrow> Exited code w')
      | Panicked w' \<Rightarrow> Panicked w'
      | Exited code w' \<Rightarrow> Exited code w')"

section \<open>The constructor\<close>

text \<open>
  \<open>func NewLogger(opts LogOpts) Logger\<close>. The remote part either ends the process (a
  team is set and the client is not logged in) or yields the logger and the options to go
  on with; the rest sets the file and console flags.
\<close>

definition NewLogger :: "LogOpts \<Rightarrow> World \<Rightarrow> Logger outcome" where
  "NewLogger opts0 w =
     (let opts1 = (if opts_Level opts0 = 0 then opts0\<lparr>opts_Level := 2\<rparr> else opts0);
          l = zero_Logger;
          remote =
            (if KBTeam opts1 \<noteq> [] then
               (let l1 = l\<lparr>k := Some (NewKeybase w)\<rparr>;
                    chann =
                      (if KBChann opts1 \<noteq> []
                       then zero_Channel\<lparr>TopicName := KBChann opts1, MembersType := TEAM\<rparr>
                       else zero_Channel\<lparr>MembersType := USER\<rparr>);
                    chann1 = chann\<lparr>Name := KBTeam opts1\<rparr>;
                    opts2 = opts1\<lparr>toKeybase := True\<rparr>
                in if \<not> LoggedIn (NewKeybase w)
                   then Inl (Println ''Not logged into keybase, but keybase option set.'' w)
                   else Inr (l1\<lparr>team := chann1\<rparr>, opts2))
             else Inr (l, opts1))
      in case remote of
           Inl w' \<Rightarrow> Exited (- 1) w'
         | Inr (l2, opts3) \<Rightarrow>
             (let opts4 = (if OutFile opts3 \<noteq> [] then opts3\<lparr>toFile := True\<rparr> else opts3);
                  opts5 = opts4\<lparr>toStdout := UseStdout opts4\<rparr>
              in Returned (l2\<lparr>opts := opts5\<rparr>) w))"

section \<open>The oldest variant of the file\<close>









section \<open>Worlds and options to evaluate on\<close>

definition quiet_world :: World where
  "quiet_world = \<lparr>clock = ''30Oct26 12:00:00.25'', stdout = [], files = Map.empty,
     open_fails = (\<lambda>name. False), write_fails = (\<lambda>name. False), chat = [],
     session = \<lparr>LoggedIn = True\<rparr>\<rparr>"

definition readonly_world :: World where
  "readonly_world = quiet_world\<lparr>open_fails := (\<lambda>name. True)\<rparr>"

definition offline_world :: World where
  "offline_world = quiet_world\<lparr>session := \<lparr>LoggedIn = False\<rparr>\<rparr>"

definition file_opts :: LogOpts where
  "file_opts = zero_LogOpts\<lparr>OutFile := ''/var/log/app.log'', UseStdout := True\<rparr>"

definition team_opts :: LogOpts where
  "team_opts = zero_LogOpts\<lparr>KBTeam := ''ops'', KBChann := ''alerts'', ProgName := ''app'',
     opts_Level := Debug\<rparr>"

section \<open>What a call adds to the world\<close>

text \<open>
  The size of a file (0 when there is none, so that creating an empty file counts), and
  the order "nothing was taken away" on worlds, with its strict part "something was
  written". They serve to show that a sink that has run has left a trace.
\<close>

definition fsize :: "World \<Rightarrow> string \<Rightarrow> nat" where
  "fsize w name = (case files w name of None \<Rightarrow> 0 | Some c \<Rightarrow> Suc (length c))"

definition grows :: "World \<Rightarrow> World \<Rightarrow> bool" where
  "grows w w' \<longleftrightarrow>
     length (stdout w) \<le> length (stdout w') \<and> length (chat w) \<le> length (chat w') \<and>
     (\<forall>name. fsize w name \<le> fsize w' name)"

definition output_added :: "World \<Rightarrow> World \<Rightarrow> bool" where
  "output_added w w' \<longleftrightarrow>
     grows w w' \<and>
     (length (stdout w) < length (stdout w') \<or> length (chat w) < length (chat w') \<or>
      (\<exists>name. fsize w name < fsize w' name))"

section \<open>Rendering\<close>

lemma length_levels: "length levels = 6"
  by (simp add: levels_def)

lemma nth_levels:
  "levels ! 0 = ''StdoutOnly''" "levels ! 1 = ''Critical''" "levels ! 2 = ''Error''"
  "levels ! 3 = ''Warning''" "levels ! 4 = ''Info''" "levels ! 5 = ''Debug''"
  by (simp_all add: levels_def)

lemma Log_String_in_range:
  "0 \<le> Level msg \<Longrightarrow> Level msg \<le> 5 \<Longrightarrow>
   Log_String msg = Some (levels ! nat (Level msg) @ '': '' @ Msg msg)"
  by (simp add: Log_String_def length_levels)

lemma Log_String_out_of_range:
  "Level msg < 0 \<or> 5 < Level msg \<Longrightarrow> Log_String msg = None"
  by (auto simp: Log_String_def length_levels)

lemma Log_String_at:
  "Log_String \<lparr>Level = 0, Msg = s\<rparr> = Some (''StdoutOnly: '' @ s)"
  "Log_String \<lparr>Level = 1, Msg = s\<rparr> = Some (''Critical: '' @ s)"
  "Log_String \<lparr>Level = 2, Msg = s\<rparr> = Some (''Error: '' @ s)"
  "Log_String \<lparr>Level = 3, Msg = s\<rparr> = Some (''Warning: '' @ s)"
  "Log_String \<lparr>Level = 4, Msg = s\<rparr> = Some (''Info: '' @ s)"
  "Log_String \<lparr>Level = 5, Msg = s\<rparr> = Some (''Debug: '' @ s)"
  by (simp_all add: Log_String_def length_levels levels_def)

text \<open>
  Claim C10. \<open>Log.String\<close> indexes an array of six names with the level of the record.
  For a level from 0 to 5 it returns the name at that index, a colon, a space and the
  message; for a level below 0 or above 5 it has no result (the index is out of range and
  the call panics).
\<close>

theorem String_total_on_closed_set:
  "length levels = 6 \<and>
   (0 \<le> Level msg \<and> Level msg \<le> 5 \<longrightarrow>
      Log_String msg = Some (levels ! nat (Level msg) @ '': '' @ Msg msg)) \<and>
   (Level msg < 0 \<or> 5 < Level msg \<longrightarrow> Log_String msg = None)"
  using Log_String_in_range [of msg] Log_String_out_of_range [of msg]
  by (simp add: length_levels)

theorem String_total_on_closed_set_witness:
  "Log_String \<lparr>Level = 3, Msg = ''disk''\<rparr> = Some (levels ! 3 @ '': disk'') \<and>
   Log_String \<lparr>Level = 6, Msg = ''disk''\<rparr> = None \<and>
   Log_String \<lparr>Level = - 1, Msg = ''disk''\<rparr> = None"
  using String_total_on_closed_set [of "\<lparr>Level = 3, Msg = ''disk''\<rparr>"]
    String_total_on_closed_set [of "\<lparr>Level = 6, Msg = ''disk''\<rparr>"]
    String_total_on_closed_set [of "\<lparr>Level = - 1, Msg = ''disk''\<rparr>"]
  by simp

text \<open>
  Claim C8. The severity constants are \<open>StdoutOnly = 0\<close>, \<open>Critical = 1\<close>,
  \<open>Errors = 2\<close>, \<open>Warnings = 3\<close>, \<open>Info = 4\<close> and \<open>Debug = 5\<close>, and a record whose
  level is one of them renders as the name of that level, a colon, a space and the
  message: \<open>Info\<close> as "Info", \<open>Debug\<close> as "Debug".
\<close>

theorem severity_values_and_names:
  "StdoutOnly = 0 \<and> Critical = 1 \<and> Errors = 2 \<and> Warnings = 3 \<and> Info = 4 \<and> Debug = 5 \<and>
   Log_String \<lparr>Level = StdoutOnly, Msg = s\<rparr> = Some (''StdoutOnly: '' @ s) \<and>
   Log_String \<lparr>Level = Critical, Msg = s\<rparr> = Some (''Critical: '' @ s) \<and>
   Log_String \<lparr>Level = Errors, Msg = s\<rparr> = Some (''Error: '' @ s) \<and>
   Log_String \<lparr>Level = Warnings, Msg = s\<rparr> = Some (''Warning: '' @ s) \<and>
   Log_String \<lparr>Level = Info, Msg = s\<rparr> = Some (''Info: '' @ s) \<and>
   Log_String \<lparr>Level = Debug, Msg = s\<rparr> = Some (''Debug: '' @ s)"
  by (simp add: StdoutOnly_def Critical_def Errors_def Warnings_def Info_def Debug_def
      Log_String_at)

section \<open>The remote sink\<close>

text \<open>
  Claim C5. For a record with a level from 0 to 5 and a logger that holds a client, the
  remote sink hands exactly one message to the chat, on the logger's channel, and writes
  nothing else: the program name in brackets, a space, the tag \<open>@everyone\<close> with a space
  after it when the level is at most \<open>Errors\<close> (2) and nothing otherwise, and the
  rendered record.
\<close>

theorem toKeybase_message:
  assumes "0 \<le> Level msg" and "Level msg \<le> 5" and "k l = Some kb"
  shows "Logger_toKeybase l msg w =
     Returned () (w\<lparr>chat := chat w @
       [(team l, ''['' @ ProgName (opts l) @ ''] '' @
          (if Level msg \<le> Errors then ''@everyone '' else []) @
          levels ! nat (Level msg) @ '': '' @ Msg msg)]\<rparr>)"
  using assms
  by (simp add: Logger_toKeybase_def Log_String_in_range Send_def Errors_def)

theorem toKeybase_message_witness:
  "Logger_toKeybase \<lparr>opts = team_opts, k = Some \<lparr>LoggedIn = True\<rparr>, team = zero_Channel\<rparr>
     \<lparr>Level = 2, Msg = ''disk full''\<rparr> quiet_world =
     Returned () (quiet_world\<lparr>chat := [(zero_Channel, ''[app] @everyone Error: disk full'')]\<rparr>) \<and>
   Logger_toKeybase \<lparr>opts = team_opts, k = Some \<lparr>LoggedIn = True\<rparr>, team = zero_Channel\<rparr>
     \<lparr>Level = 3, Msg = ''disk low''\<rparr> quiet_world =
     Returned () (quiet_world\<lparr>chat := [(zero_Channel, ''[app] Warning: disk low'')]\<rparr>)"
proof -
  let ?l = "\<lparr>opts = team_opts, k = Some \<lparr>LoggedIn = True\<rparr>, team = zero_Channel\<rparr>"
  have a: "k ?l = Some \<lparr>LoggedIn = True\<rparr>" by simp
  have p: "ProgName team_opts = ''app''" by (simp add: team_opts_def zero_LogOpts_def)
  have c: "chat quiet_world = []" by (simp add: quiet_world_def)
  show ?thesis
    using toKeybase_message [of "\<lparr>Level = 2, Msg = ''disk full''\<rparr>" ?l _ quiet_world, OF _ _ a]
      toKeybase_message [of "\<lparr>Level = 3, Msg = ''disk low''\<rparr>" ?l _ quiet_world, OF _ _ a]
    by (simp add: p c nth_levels Errors_def)
qed

section \<open>The file sink\<close>

lemma toFile_panics: "Log_String msg = None \<Longrightarrow> Logger_toFile l msg w = Panicked w"
  by (simp add: Logger_toFile_def)

lemma toFile_open_fails:
  "open_fails w (OutFile (opts l)) \<Longrightarrow> Log_String msg = Some s \<Longrightarrow>
   Logger_toFile l msg w =
     Returned () (w\<lparr>stdout := stdout w @
       [''Unable to open logging file'', ''Error writing output to logging file'']\<rparr>)"
  by (simp add: Logger_toFile_def OpenFile_def WriteString_def Println_def)

lemma toFile_write_fails:
  "\<not> open_fails w (OutFile (opts l)) \<Longrightarrow> write_fails w (OutFile (opts l)) \<Longrightarrow>
   Log_String msg = Some s \<Longrightarrow>
   Logger_toFile l msg w =
     Returned () (w\<lparr>files := (files w)(OutFile (opts l) \<mapsto> contents w (OutFile (opts l))),
       stdout := stdout w @ [''Error writing output to logging file'']\<rparr>)"
  by (simp add: Logger_toFile_def OpenFile_def WriteString_def Println_def)

lemma toFile_writes:
  "\<not> open_fails w (OutFile (opts l)) \<Longrightarrow> \<not> write_fails w (OutFile (opts l)) \<Longrightarrow>
   Log_String msg = Some s \<Longrightarrow>
   Logger_toFile l msg w =
     Returned () (w\<lparr>files := (files w)(OutFile (opts l) \<mapsto>
       contents w (OutFile (opts l)) @ ''['' @ clock w @ ''] '' @ s @ [CHR 0x0A])\<rparr>)"
  by (simp add: Logger_toFile_def OpenFile_def WriteString_def Println_def contents_def
      timeStamp_def)


text \<open>
  Claim C4. When the file cannot be opened, the file sink writes nothing to any file, but
  it prints two diagnostics, not one: after "Unable to open logging file" it goes on to
  write to the handle it did not get, and prints "Error writing output to logging file"
  as well. Here on a logger with the file \<open>/var/log/app.log\<close>, a record of level
  \<open>Errors\<close> and a world in which no file can be opened.
\<close>

theorem toFile_open_failure_two_diagnostics:
  "Logger_toFile \<lparr>opts = file_opts\<lparr>toFile := True\<rparr>, k = None, team = zero_Channel\<rparr>
     \<lparr>Level = 2, Msg = ''disk full''\<rparr> readonly_world =
   Returned () (readonly_world\<lparr>stdout :=
     [''Unable to open logging file'', ''Error writing output to logging file'']\<rparr>)"
  by (simp add: Logger_toFile_def Log_String_def length_levels OpenFile_def WriteString_def
      Println_def readonly_world_def quiet_world_def)

section \<open>A sink that has run has left a trace\<close>

lemma output_added_irrefl: "\<not> output_added w w"
  by (simp add: output_added_def)

lemma output_added_trans: "output_added w w1 \<Longrightarrow> output_added w1 w2 \<Longrightarrow> output_added w w2"
  unfolding output_added_def grows_def
  by (meson le_trans less_le_trans)

lemma toStdout_adds: "Logger_toStdout l msg w = Returned u w' \<Longrightarrow> output_added w w'"
  by (auto simp: Logger_toStdout_def Println_def output_added_def grows_def fsize_def
      split: option.splits)

lemma toKeybase_adds: "Logger_toKeybase l msg w = Returned u w' \<Longrightarrow> output_added w w'"
  by (auto simp: Logger_toKeybase_def Send_def Let_def output_added_def grows_def fsize_def
      split: option.splits)

lemma toFile_adds:
  assumes "Logger_toFile l msg w = Returned u w'"
  shows "output_added w w'"
proof (cases "Log_String msg")
  case None
  with assms show ?thesis by (simp add: toFile_panics)
next
  case (Some s)
  show ?thesis
  proof (cases "open_fails w (OutFile (opts l))")
    case True
    from assms toFile_open_fails [OF True Some] show ?thesis
      by (auto simp: output_added_def grows_def fsize_def)
  next
    case False
    show ?thesis
    proof (cases "write_fails w (OutFile (opts l))")
      case True
      from assms toFile_write_fails [OF False True Some] show ?thesis
        by (auto simp: output_added_def grows_def fsize_def contents_def
            split: option.splits if_splits)
    next
      case wok: False
      from assms toFile_writes [OF False wok Some]
      have w': "w' = w\<lparr>files := (files w)(OutFile (opts l) \<mapsto>
         contents w (OutFile (opts l)) @ ''['' @ clock w @ ''] '' @ s @ [CHR 0x0A])\<rparr>"
        by simp
      have g: "grows w w'"
        by (auto simp: w' grows_def fsize_def contents_def split: option.splits if_splits)
      have "fsize w (OutFile (opts l)) < fsize w' (OutFile (opts l))"
        by (auto simp: w' fsize_def contents_def split: option.splits)
      with g show ?thesis unfolding output_added_def by blast
    qed
  qed
qed

lemma run_sink_adds: "run_sink g w = Returned u w' \<Longrightarrow> output_added w w'"
  by (cases g) (auto dest: toStdout_adds toKeybase_adds toFile_adds)

lemma run_sinks_adds:
  "run_sinks gs w = Returned u w' \<Longrightarrow> gs \<noteq> [] \<Longrightarrow> output_added w w'"
proof (induction gs arbitrary: w)
  case Nil
  then show ?case by simp
next
  case (Cons g gs)
  from Cons.prems(1) obtain u1 w1 where
    g: "run_sink g w = Returned u1 w1" and rest: "run_sinks gs w1 = Returned u w'"
    by (auto split: outcome.splits)
  show ?case
  proof (cases gs)
    case Nil
    with rest g show ?thesis by (auto dest: run_sink_adds)
  next
    case (Cons a as)
    with rest Cons.IH [of w1] have "output_added w1 w'" by simp
    with run_sink_adds [OF g] show ?thesis by (rule output_added_trans)
  qed
qed

section \<open>Dispatch: suppression, the bypass level and the fan-out\<close>

lemma handleLog_zero: "Level logMsg = 0 \<Longrightarrow> handleLog l logMsg = [Go_toStdout l logMsg]"
  by (simp add: handleLog_def)

lemma handleLog_empty_iff:
  "handleLog l logMsg = [] \<longleftrightarrow>
     (Level logMsg > opts_Level (opts l) \<and> Level logMsg \<noteq> 0) \<or>
     (Level logMsg \<noteq> 0 \<and> \<not> toKeybase (opts l) \<and> \<not> toFile (opts l) \<and> \<not> toStdout (opts l))"
  by (auto simp: handleLog_def)

lemma handleLog_passed:
  "\<not> (Level logMsg > opts_Level (opts l) \<and> Level logMsg \<noteq> 0) \<Longrightarrow> Level logMsg \<noteq> 0 \<Longrightarrow>
   handleLog l logMsg =
     (if toKeybase (opts l) then [Go_toKeybase l logMsg] else []) @
     (if toFile (opts l) then [Go_toFile l logMsg] else []) @
     (if toStdout (opts l) then [Go_toStdout l logMsg] else [])"
  by (simp add: handleLog_def)

lemma dispatch_silent_iff: "dispatch l logMsg w = Returned () w \<longleftrightarrow> handleLog l logMsg = []"
proof
  assume "dispatch l logMsg w = Returned () w"
  then show "handleLog l logMsg = []"
    using run_sinks_adds [of "handleLog l logMsg" w "()" w] output_added_irrefl [of w]
    by (auto simp: dispatch_def)
next
  assume "handleLog l logMsg = []"
  then show "dispatch l logMsg w = Returned () w" by (simp add: dispatch_def)
qed

text \<open>
  Claim C1, as the code has it. A record whose level is above the threshold and not 0 is
  suppressed: \<open>handleLog\<close> starts no sink and the world stays as it is. A record that is
  not suppressed and whose level is not 0 is handed to exactly the sinks whose flag is
  set. Dispatch returns with the world unchanged if and only if the record is suppressed,
  or its level is not 0 and no sink is enabled: the second case is what the claim's
  "if and only if" leaves out.
\<close>

theorem handleLog_suppression_and_fanout:
  "((Level logMsg > opts_Level (opts l) \<and> Level logMsg \<noteq> 0) \<longrightarrow>
      handleLog l logMsg = [] \<and> dispatch l logMsg w = Returned () w) \<and>
   (\<not> (Level logMsg > opts_Level (opts l) \<and> Level logMsg \<noteq> 0) \<and> Level logMsg \<noteq> 0 \<longrightarrow>
      handleLog l logMsg =
        (if toKeybase (opts l) then [Go_toKeybase l logMsg] else []) @
        (if toFile (opts l) then [Go_toFile l logMsg] else []) @
        (if toStdout (opts l) then [Go_toStdout l logMsg] else [])) \<and>
   (dispatch l logMsg w = Returned () w \<longleftrightarrow>
      (Level logMsg > opts_Level (opts l) \<and> Level logMsg \<noteq> 0) \<or>
      (Level logMsg \<noteq> 0 \<and> \<not> toKeybase (opts l) \<and> \<not> toFile (opts l) \<and> \<not> toStdout (opts l)))"
proof (intro conjI impI)
  assume "Level logMsg > opts_Level (opts l) \<and> Level logMsg \<noteq> 0"
  then show "handleLog l logMsg = []" by (simp add: handleLog_def)
  then show "dispatch l logMsg w = Returned () w" by (simp add: dispatch_def)
next
  assume "\<not> (Level logMsg > opts_Level (opts l) \<and> Level logMsg \<noteq> 0) \<and> Level logMsg \<noteq> 0"
  then show "handleLog l logMsg =
      (if toKeybase (opts l) then [Go_toKeybase l logMsg] else []) @
      (if toFile (opts l) then [Go_toFile l logMsg] else []) @
      (if toStdout (opts l) then [Go_toStdout l logMsg] else [])"
    using handleLog_passed [where logMsg = logMsg and l = l] by blast
next
  show "dispatch l logMsg w = Returned () w \<longleftrightarrow>
      (Level logMsg > opts_Level (opts l) \<and> Level logMsg \<noteq> 0) \<or>
      (Level logMsg \<noteq> 0 \<and> \<not> toKeybase (opts l) \<and> \<not> toFile (opts l) \<and> \<not> toStdout (opts l))"
    by (simp only: dispatch_silent_iff handleLog_empty_iff)
qed

theorem handleLog_suppression_and_fanout_witness:
  "handleLog \<lparr>opts = file_opts\<lparr>toFile := True, toStdout := True, opts_Level := 2\<rparr>, k = None,
       team = zero_Channel\<rparr> \<lparr>Level = 3, Msg = ''probe''\<rparr> = [] \<and>
   handleLog \<lparr>opts = file_opts\<lparr>toFile := True, toStdout := True, opts_Level := 2\<rparr>, k = None,
       team = zero_Channel\<rparr> \<lparr>Level = 2, Msg = ''disk full''\<rparr> =
     [Go_toFile \<lparr>opts = file_opts\<lparr>toFile := True, toStdout := True, opts_Level := 2\<rparr>, k = None,
         team = zero_Channel\<rparr> \<lparr>Level = 2, Msg = ''disk full''\<rparr>,
      Go_toStdout \<lparr>opts = file_opts\<lparr>toFile := True, toStdout := True, opts_Level := 2\<rparr>, k = None,
         team = zero_Channel\<rparr> \<lparr>Level = 2, Msg = ''disk full''\<rparr>]"
proof -
  let ?l = "\<lparr>opts = file_opts\<lparr>toFile := True, toStdout := True, opts_Level := 2\<rparr>, k = None,
       team = zero_Channel\<rparr>"
  have f: "\<not> toKeybase (opts ?l)" "toFile (opts ?l)" "toStdout (opts ?l)"
    "opts_Level (opts ?l) = 2"
    by (simp_all add: file_opts_def zero_LogOpts_def)
  show ?thesis
    using handleLog_suppression_and_fanout
        [where logMsg = "\<lparr>Level = 3, Msg = ''probe''\<rparr>" and l = ?l]
      handleLog_suppression_and_fanout
        [where logMsg = "\<lparr>Level = 2, Msg = ''disk full''\<rparr>" and l = ?l]
    using f by simp
qed

text \<open>
  The logger that \<open>NewLogger\<close> builds from the zero options has the threshold \<open>Errors\<close>
  and no sink. A \<open>Critical\<close> record is not suppressed there, and dispatch still leaves
  the world as it is.
\<close>

theorem silent_without_suppression_counterexample:
  "NewLogger zero_LogOpts quiet_world =
     Returned \<lparr>opts = zero_LogOpts\<lparr>opts_Level := 2\<rparr>, k = None, team = zero_Channel\<rparr> quiet_world \<and>
   dispatch \<lparr>opts = zero_LogOpts\<lparr>opts_Level := 2\<rparr>, k = None, team = zero_Channel\<rparr>
     \<lparr>Level = 1, Msg = ''disk full''\<rparr> quiet_world = Returned () quiet_world \<and>
   \<not> (Level \<lparr>Level = 1, Msg = ''disk full''\<rparr>
        > opts_Level (opts \<lparr>opts = zero_LogOpts\<lparr>opts_Level := 2\<rparr>, k = None, team = zero_Channel\<rparr>)
      \<and> Level \<lparr>Level = 1, Msg = ''disk full''\<rparr> \<noteq> 0)"
  by (simp add: NewLogger_def zero_Logger_def zero_LogOpts_def dispatch_def handleLog_def)

text \<open>
  Claim C2. A record of level \<open>StdoutOnly\<close> (0) goes to the console sink and to no
  other, whatever the threshold and the flags of the logger: \<open>handleLog\<close> starts the
  console sink alone, and when that has run the console has one more line, the rendered
  record after the time stamp, and the files and the chat are as they were.
\<close>

theorem StdoutOnly_console_only:
  assumes "Level logMsg = StdoutOnly"
  shows "handleLog l logMsg = [Go_toStdout l logMsg] \<and>
     dispatch l logMsg w =
       Returned () (w\<lparr>stdout := stdout w @ [''['' @ clock w @ ''] StdoutOnly: '' @ Msg logMsg]\<rparr>) \<and>
     (\<forall>w'. dispatch l logMsg w = Returned () w' \<longrightarrow>
        length (stdout w') = length (stdout w) + 1 \<and> files w' = files w \<and> chat w' = chat w)"
proof -
  from assms have z: "Level logMsg = 0" by (simp add: StdoutOnly_def)
  have s: "Log_String logMsg = Some (''StdoutOnly: '' @ Msg logMsg)"
    using z by (simp add: Log_String_def length_levels nth_levels)
  have d: "dispatch l logMsg w =
       Returned () (w\<lparr>stdout := stdout w @ [''['' @ clock w @ ''] StdoutOnly: '' @ Msg logMsg]\<rparr>)"
    by (simp add: dispatch_def handleLog_zero [OF z] Logger_toStdout_def s Println_def
        timeStamp_def)
  show ?thesis by (simp add: handleLog_zero [OF z] d)
qed

theorem StdoutOnly_console_only_witness:
  "dispatch \<lparr>opts = file_opts\<lparr>toFile := True, opts_Level := - 7\<rparr>, k = None, team = zero_Channel\<rparr>
     \<lparr>Level = 0, Msg = ''hello''\<rparr> quiet_world =
   Returned () (quiet_world\<lparr>stdout := [''[30Oct26 12:00:00.25] StdoutOnly: hello'']\<rparr>)"
proof -
  have z: "Level \<lparr>Level = 0, Msg = ''hello''\<rparr> = StdoutOnly" by (simp add: StdoutOnly_def)
  show ?thesis
    using StdoutOnly_console_only [OF z, of
        "\<lparr>opts = file_opts\<lparr>toFile := True, opts_Level := - 7\<rparr>, k = None, team = zero_Channel\<rparr>"
        quiet_world]
    by (simp add: quiet_world_def)
qed

section \<open>The constructor\<close>


lemma NewLogger_exit:
  "KBTeam opts0 \<noteq> [] \<Longrightarrow> \<not> LoggedIn (session w) \<Longrightarrow>
   NewLogger opts0 w =
     Exited (- 1) (Println ''Not logged into keybase, but keybase option set.'' w)"
  by (simp add: NewLogger_def Let_def NewKeybase_def)

lemma NewLogger_returns:
  "KBTeam opts0 = [] \<or> LoggedIn (session w) \<Longrightarrow> \<exists>l. NewLogger opts0 w = Returned l w"
  by (auto simp: NewLogger_def Let_def NewKeybase_def)

lemma NewLogger_Level:
  "NewLogger opts0 w = Returned l w' \<Longrightarrow>
   opts_Level (opts l) = (if opts_Level opts0 = 0 then 2 else opts_Level opts0)"
  by (auto simp: NewLogger_def Let_def NewKeybase_def split: if_splits)

text \<open>
  The flags in general: a flag that the options already carry stays set. Only code of the
  package itself can pass such options.
\<close>

lemma NewLogger_flags:
  "NewLogger opts0 w = Returned l w' \<Longrightarrow>
   (toFile (opts l) \<longleftrightarrow> toFile opts0 \<or> OutFile opts0 \<noteq> []) \<and>
   (toKeybase (opts l) \<longleftrightarrow> toKeybase opts0 \<or> KBTeam opts0 \<noteq> []) \<and>
   (toStdout (opts l) \<longleftrightarrow> UseStdout opts0) \<and>
   OutFile (opts l) = OutFile opts0 \<and> KBTeam (opts l) = KBTeam opts0 \<and>
   ProgName (opts l) = ProgName opts0 \<and> w' = w"
  by (auto simp: NewLogger_def Let_def NewKeybase_def split: if_splits)

lemma NewLogger_session:
  "NewLogger opts0 w = Returned l w' \<Longrightarrow> KBTeam opts0 \<noteq> [] \<Longrightarrow>
   k l = Some (session w) \<and> LoggedIn (session w) \<and> Name (team l) = KBTeam opts0"
  by (auto simp: NewLogger_def Let_def NewKeybase_def split: if_splits)

text \<open>
  Claim C6. Whenever \<open>NewLogger\<close> returns a logger, its threshold is \<open>Errors\<close> (2) if
  the options give the threshold 0, and the threshold of the options otherwise; and it
  does return one, in an unchanged world, unless a team is set and the client is not
  logged in.
\<close>

theorem NewLogger_threshold_default:
  "(KBTeam opts0 = [] \<or> LoggedIn (session w) \<longrightarrow>
      (\<exists>l. NewLogger opts0 w = Returned l w \<and>
         opts_Level (opts l) = (if opts_Level opts0 = 0 then Errors else opts_Level opts0))) \<and>
   (\<forall>l w'. NewLogger opts0 w = Returned l w' \<longrightarrow>
      opts_Level (opts l) = (if opts_Level opts0 = 0 then Errors else opts_Level opts0))"
  using NewLogger_returns [of opts0 w] NewLogger_Level [of opts0 w]
  by (auto simp: Errors_def)

theorem NewLogger_threshold_default_witness:
  "(\<exists>l. NewLogger file_opts quiet_world = Returned l quiet_world \<and> opts_Level (opts l) = 2) \<and>
   (\<exists>l. NewLogger team_opts quiet_world = Returned l quiet_world \<and> opts_Level (opts l) = 5)"
proof -
  have a: "KBTeam file_opts = []" "opts_Level file_opts = 0"
    by (simp_all add: file_opts_def zero_LogOpts_def)
  have b: "LoggedIn (session quiet_world)" "opts_Level team_opts = 5"
    by (simp_all add: quiet_world_def team_opts_def zero_LogOpts_def Debug_def)
  show ?thesis
    using NewLogger_threshold_default [of file_opts quiet_world]
      NewLogger_threshold_default [of team_opts quiet_world] a b
    by (simp add: Errors_def)
qed

text \<open>
  Claim C7. For options as a caller outside the package can write them (the unexported
  flags \<open>toFile\<close> and \<open>toKeybase\<close> not set): if a team is set and the client is not
  logged in, \<open>NewLogger\<close> prints one line and ends the process with the code -1, and no
  logger comes into being; otherwise it returns a logger. In every logger it returns, the
  file flag is set exactly when the file path is not empty, the remote flag exactly when
  a team is set, the console flag is the \<open>UseStdout\<close> of the options, and a team goes
  with a client that is logged in.
\<close>

theorem NewLogger_sink_flags:
  assumes "\<not> toFile opts0" and "\<not> toKeybase opts0"
  shows "(KBTeam opts0 \<noteq> [] \<and> \<not> LoggedIn (session w) \<longrightarrow>
      NewLogger opts0 w =
        Exited (- 1) (Println ''Not logged into keybase, but keybase option set.'' w)) \<and>
   (KBTeam opts0 = [] \<or> LoggedIn (session w) \<longrightarrow> (\<exists>l. NewLogger opts0 w = Returned l w)) \<and>
   (\<forall>l w'. NewLogger opts0 w = Returned l w' \<longrightarrow>
      (toFile (opts l) \<longleftrightarrow> OutFile (opts l) \<noteq> []) \<and>
      (toKeybase (opts l) \<longleftrightarrow> KBTeam (opts l) \<noteq> []) \<and>
      (toStdout (opts l) \<longleftrightarrow> UseStdout opts0) \<and>
      OutFile (opts l) = OutFile opts0 \<and> KBTeam (opts l) = KBTeam opts0 \<and>
      (KBTeam opts0 \<noteq> [] \<longrightarrow> LoggedIn (session w)))"
proof (intro conjI impI allI)
  fix l w'
  assume r: "NewLogger opts0 w = Returned l w'"
  from NewLogger_flags [OF r] assms
  show "toFile (opts l) \<longleftrightarrow> OutFile (opts l) \<noteq> []"
    and "toKeybase (opts l) \<longleftrightarrow> KBTeam (opts l) \<noteq> []"
    and "toStdout (opts l) \<longleftrightarrow> UseStdout opts0"
    and "OutFile (opts l) = OutFile opts0" and "KBTeam (opts l) = KBTeam opts0"
    by simp_all
  assume "KBTeam opts0 \<noteq> []"
  with NewLogger_session [OF r] show "LoggedIn (session w)" by simp
next
  assume "KBTeam opts0 \<noteq> [] \<and> \<not> LoggedIn (session w)"
  then show "NewLogger opts0 w =
      Exited (- 1) (Println ''Not logged into keybase, but keybase option set.'' w)"
    by (simp add: NewLogger_exit)
next
  assume "KBTeam opts0 = [] \<or> LoggedIn (session w)"
  then show "\<exists>l. NewLogger opts0 w = Returned l w" by (rule NewLogger_returns)
qed

theorem NewLogger_sink_flags_witness:
  "NewLogger team_opts offline_world =
     Exited (- 1) (offline_world\<lparr>stdout := [''Not logged into keybase, but keybase option set.'']\<rparr>) \<and>
   (\<exists>l. NewLogger file_opts quiet_world = Returned l quiet_world \<and>
      toFile (opts l) \<and> \<not> toKeybase (opts l) \<and> toStdout (opts l))"
proof -
  have z: "\<not> toFile team_opts" "\<not> toKeybase team_opts" "\<not> toFile file_opts" "\<not> toKeybase file_opts"
    by (simp_all add: team_opts_def file_opts_def zero_LogOpts_def)
  have e: "KBTeam team_opts \<noteq> []" "\<not> LoggedIn (session offline_world)"
    "Println ''Not logged into keybase, but keybase option set.'' offline_world =
       offline_world\<lparr>stdout := [''Not logged into keybase, but keybase option set.'']\<rparr>"
    by (simp_all add: team_opts_def zero_LogOpts_def offline_world_def quiet_world_def Println_def)
  have f: "KBTeam file_opts = []" "OutFile file_opts \<noteq> []" "UseStdout file_opts"
    by (simp_all add: file_opts_def zero_LogOpts_def)
  from NewLogger_sink_flags [OF z(1,2), of offline_world] e
  have 1: "NewLogger team_opts offline_world =
     Exited (- 1) (offline_world\<lparr>stdout := [''Not logged into keybase, but keybase option set.'']\<rparr>)"
    by simp
  from NewLogger_sink_flags [OF z(3,4), of quiet_world] f
  have 2: "\<exists>l. NewLogger file_opts quiet_world = Returned l quiet_world \<and>
      toFile (opts l) \<and> \<not> toKeybase (opts l) \<and> toStdout (opts l)"
    by auto
  from 1 2 show ?thesis by simp
qed

section \<open>Where the process ends\<close>

lemma ending_simps:
  "snd (LogDebug l msg) = Return" "snd (LogInfo l msg) = Return" "snd (LogWarn l msg) = Return"
  "snd (LogError l msg) = Return" "snd (LogCritical l msg) = Return"
  "snd (LogErrorType l msg) = Return" "snd (Logger_Log l level msg) = Return"
  "snd (LogMsg l logMsg) = Return" "snd (PanicSafe l r) = Return"
  "snd (LogPanic l msg) = Exit (- 1)"
  by (simp_all add: LogDebug_def LogInfo_def LogWarn_def LogError_def LogCritical_def
      LogErrorType_def Logger_Log_def LogMsg_def PanicSafe_def LogPanic_def split: option.splits)

lemma at_end_0: "at_end 0 c w = (case snd c of Return \<Rightarrow> Returned () w | Exit code \<Rightarrow> Exited code w)"
  by (simp add: at_end_def)

lemma LogPanic_at_end_0: "at_end 0 (LogPanic l msg) w = Exited (- 1) w"
  by (simp add: at_end_0 ending_simps)













text \<open>
  Claim C3. \<open>LogPanic\<close> builds a record of level \<open>Critical\<close>, calls \<open>handleLog\<close>
  itself and ends the process with the code -1. It does not wait for the sinks:
  \<open>handleLog\<close> only starts them as goroutines, and \<open>os.Exit\<close> follows at once. On the
  logger built from a file path and the console, whose threshold lets the record pass,
  two sinks are started; when the starter goes on first the process ends with nothing
  written to the console or to the file, and only when both sinks happen to run before
  the exit are the two lines there.
\<close>

theorem LogPanic_exits_before_sinks_run:
  "NewLogger file_opts quiet_world =
     Returned \<lparr>opts = file_opts\<lparr>opts_Level := 2, toFile := True, toStdout := True\<rparr>, k = None,
       team = zero_Channel\<rparr> quiet_world \<and>
   fst (LogPanic \<lparr>opts = file_opts\<lparr>opts_Level := 2, toFile := True, toStdout := True\<rparr>, k = None,
       team = zero_Channel\<rparr> ''out of memory'') =
     [Go_sink (Go_toFile \<lparr>opts = file_opts\<lparr>opts_Level := 2, toFile := True, toStdout := True\<rparr>,
        k = None, team = zero_Channel\<rparr> \<lparr>Level = 1, Msg = ''out of memory''\<rparr>),
      Go_sink (Go_toStdout \<lparr>opts = file_opts\<lparr>opts_Level := 2, toFile := True, toStdout := True\<rparr>,
        k = None, team = zero_Channel\<rparr> \<lparr>Level = 1, Msg = ''out of memory''\<rparr>)] \<and>
   at_end 0 (LogPanic \<lparr>opts = file_opts\<lparr>opts_Level := 2, toFile := True, toStdout := True\<rparr>,
       k = None, team = zero_Channel\<rparr> ''out of memory'') quiet_world =
     Exited (- 1) quiet_world \<and>
   at_end 2 (LogPanic \<lparr>opts = file_opts\<lparr>opts_Level := 2, toFile := True, toStdout := True\<rparr>,
       k = None, team = zero_Channel\<rparr> ''out of memory'') quiet_world =
     Exited (- 1) (quiet_world\<lparr>
       files := [''/var/log/app.log'' \<mapsto>
         ''[30Oct26 12:00:00.25] Critical: out of memory'' @ [CHR 0x0A]],
       stdout := [''[30Oct26 12:00:00.25] Critical: out of memory'']\<rparr>)"
  by (simp add: NewLogger_def zero_Logger_def file_opts_def zero_LogOpts_def LogPanic_def
      handleLog_def Critical_def at_end_def numeral_2_eq_2 Logger_toFile_def Logger_toStdout_def
      Log_String_def levels_def OpenFile_def WriteString_def Println_def
      timeStamp_def contents_def quiet_world_def)













end
